theory Spec2Isabelle
  imports Complex_Main "HOL-Library.Word"
begin

section \<open>Go values\<close>

text \<open>
  Go's \<open>int\<close> is modelled as \<open>int\<close>: the claims verified here do not depend on
  64-bit wrap-around of signed integers. The unsigned \<open>uintptr\<close> of the memory
  estimate is a \<open>64 word\<close>, and \<open>int8\<close> is an \<open>8 word\<close>.
  Go's integer division truncates towards zero and panics on a zero divisor;
  \<open>quo\<close> is the quotient for a non-zero divisor.
\<close>

type_synonym uintptr = "64 word"
type_synonym int8 = "8 word"

definition quo :: "int \<Rightarrow> int \<Rightarrow> int" where
  "quo a b = sgn a * sgn b * (\<bar>a\<bar> div \<bar>b\<bar>)"

text \<open>
  A \<open>float64\<close> is idealised: a finite value is the real number it stands for
  (rounding and signed zeros are not modelled), and the three special values are
  kept, so that a division by zero gives an infinity or a NaN as in Go, and not
  HOL's \<open>x / 0 = 0\<close>.
\<close>

datatype float64 = Fin real | PInf | NInf | NaN

definition float64_of_int :: "int \<Rightarrow> float64" where
  "float64_of_int i = Fin (real_of_int i)"

fun fneg :: "float64 \<Rightarrow> float64" where
  "fneg (Fin a) = Fin (- a)"
| "fneg PInf = NInf"
| "fneg NInf = PInf"
| "fneg NaN = NaN"

fun fadd :: "float64 \<Rightarrow> float64 \<Rightarrow> float64" where
  "fadd NaN _ = NaN"
| "fadd _ NaN = NaN"
| "fadd (Fin a) (Fin b) = Fin (a + b)"
| "fadd PInf NInf = NaN"
| "fadd NInf PInf = NaN"
| "fadd PInf _ = PInf"
| "fadd NInf _ = NInf"
| "fadd _ PInf = PInf"
| "fadd _ NInf = NInf"

definition fsub :: "float64 \<Rightarrow> float64 \<Rightarrow> float64" where
  "fsub a b = fadd a (fneg b)"

fun fsgn :: "float64 \<Rightarrow> real" where
  "fsgn (Fin a) = sgn a"
| "fsgn PInf = 1"
| "fsgn NInf = - 1"
| "fsgn NaN = 0"

fun fmul :: "float64 \<Rightarrow> float64 \<Rightarrow> float64" where
  "fmul NaN _ = NaN"
| "fmul _ NaN = NaN"
| "fmul (Fin a) (Fin b) = Fin (a * b)"
| "fmul a b =
     (if fsgn a * fsgn b = 0 then NaN else if fsgn a * fsgn b > 0 then PInf else NInf)"

fun fdiv :: "float64 \<Rightarrow> float64 \<Rightarrow> float64" where
  "fdiv NaN _ = NaN"
| "fdiv _ NaN = NaN"
| "fdiv (Fin a) (Fin b) =
     (if b \<noteq> 0 then Fin (a / b)
      else if a = 0 then NaN else if a > 0 then PInf else NInf)"
| "fdiv (Fin a) _ = Fin 0"
| "fdiv PInf (Fin b) = (if b \<ge> 0 then PInf else NInf)"
| "fdiv NInf (Fin b) = (if b \<ge> 0 then NInf else PInf)"
| "fdiv _ _ = NaN"

fun flt :: "float64 \<Rightarrow> float64 \<Rightarrow> bool" where
  "flt NaN _ = False"
| "flt _ NaN = False"
| "flt (Fin a) (Fin b) = (a < b)"
| "flt PInf _ = False"
| "flt _ NInf = False"
| "flt NInf _ = True"
| "flt _ PInf = True"

definition fgt :: "float64 \<Rightarrow> float64 \<Rightarrow> bool" where
  "fgt a b = flt b a"

fun fle :: "float64 \<Rightarrow> float64 \<Rightarrow> bool" where
  "fle NaN _ = False"
| "fle _ NaN = False"
| "fle (Fin a) (Fin b) = (a \<le> b)"
| "fle NInf _ = True"
| "fle _ PInf = True"
| "fle PInf _ = False"
| "fle _ NInf = False"

text \<open>
  The conversion \<open>int(f)\<close> truncates towards zero. For a value that does not fit
  (and for NaN and the infinities) Go leaves the result to the implementation;
  the model takes the smallest \<open>int64\<close>, which is what amd64 gives.
\<close>

definition trunc_real :: "real \<Rightarrow> int" where
  "trunc_real x = (if x \<ge> 0 then \<lfloor>x\<rfloor> else \<lceil>x\<rceil>)"

fun int_of_float64 :: "float64 \<Rightarrow> int" where
  "int_of_float64 (Fin x) =
     (if - (2 ^ 63) \<le> trunc_real x \<and> trunc_real x < 2 ^ 63 then trunc_real x else - (2 ^ 63))"
| "int_of_float64 _ = - (2 ^ 63)"

text \<open>Decimal formatting of an integer, the verb \<open>%d\<close> of \<open>fmt.Sprintf\<close>.\<close>

definition digit :: "nat \<Rightarrow> char" where
  "digit n = ''0123456789'' ! n"

fun fmt_nat :: "nat \<Rightarrow> string" where
  "fmt_nat n = (if n < 10 then [digit n] else fmt_nat (n div 10) @ [digit (n mod 10)])"

definition fmt_d :: "int \<Rightarrow> string" where
  "fmt_d i = (if i < 0 then CHR ''-'' # fmt_nat (nat (- i)) else fmt_nat (nat i))"

text \<open>
  An error value made by \<open>bio.NewError\<close> carries its message; a run-time panic
  (index out of range, failed type assertion, division by zero, an explicit
  \<open>panic\<close>) is kept apart from it.
\<close>

datatype error = Error string | Panic string


section \<open>Sequences and features\<close>

text \<open>
  The declarations of \<open>seq.Seq\<close> and \<open>feat.Feature\<close> are not part of the sources
  at hand; the records hold the fields the code reads and writes. \<open>Meta\<close> is an
  \<open>interface{}\<close> in Go and a type parameter here.
\<close>

record 'm Seq =
  SeqID :: string
  Seq :: string
  Meta :: 'm

definition Len :: "('m, 'x) Seq_scheme \<Rightarrow> int" where
  "Len s = int (length (Seq s))"

record Feature =
  ID :: string
  Source :: string
  Location :: string
  Feature_f :: string
  Start :: int
  End :: int
  Score :: "float64 option"
  Strand :: int8
  Frame :: int8
  Attributes :: string

text \<open>The zero value of a \<open>feat.Feature\<close>.\<close>

definition Feature0 :: Feature where
  "Feature0 = \<lparr>ID = [], Source = [], Location = [], Feature_f = [], Start = 0, End = 0,
     Score = None, Strand = 0, Frame = 0, Attributes = []\<rparr>"

record FeaturePair =
  A :: Feature
  B :: Feature
  Score_p :: int
  Error_p :: float64
  Strand_p :: int8

text \<open>
  A packed sequence carries a \<open>seqMap\<close> in its \<open>Meta\<close>: the contigs with their
  offsets in the packed sequence, and for every bin of \<open>binSize\<close> positions the
  index of its contig.
\<close>

record contig =
  seq_c :: "unit Seq"
  from_c :: int

record seqMap =
  contigs :: "contig list"
  binMap :: "int list"

text \<open>
  \<open>featureOf\<close> converts coordinates in a packed sequence into a feature. The
  constant \<open>binSize\<close> is declared outside the sources at hand and is a parameter;
  it is a positive constant, so \<open>2 * binSize\<close> is not zero. \<open>Meta = None\<close>
  stands for a \<open>Meta\<close> that is not a \<open>seqMap\<close>: the type assertion panics.
\<close>

definition featureOf ::
  "int \<Rightarrow> (seqMap option) Seq \<Rightarrow> int \<Rightarrow> int \<Rightarrow> bool \<Rightarrow> error + Feature" where
  "featureOf binSize cs from0 to0 complement =
    (let from1 = (if complement then Len cs - to0 else from0);
         to1 = (if complement then Len cs - from0 else to0)
     in
     if from1 \<ge> to1 then Inl (Error (SeqID cs @ '': from > to''))
     else
       let from2 = (if from1 < 0 then 0 else from1);
           to2 = (if to1 > Len cs then Len cs else to1);
           bin = quo (from2 + to2) (2 * binSize);
           binCount = quo (Len cs + binSize - 1) binSize
       in
       if bin < 0 \<or> bin \<ge> binCount
       then Inl (Error (SeqID cs @ '': bin '' @ fmt_d bin @ '' out of range 0..''
                          @ fmt_d (binCount - 1)))
       else
         (case Meta cs of
            None \<Rightarrow> Inl (Panic ''interface conversion'')
          | Some sm \<Rightarrow>
              if bin \<ge> int (length (binMap sm)) then Inl (Panic ''index out of range'')
              else
                let contigIndex = binMap sm ! nat bin in
                if contigIndex < 0 \<or> contigIndex \<ge> int (length (contigs sm))
                then Inl (Error (SeqID cs @ '': contig index '' @ fmt_d contigIndex
                                   @ '' out of range 0..'' @ fmt_d (int (length (contigs sm)))))
                else
                  let len = to2 - from2 in
                  if len < 0 then Inl (Error (SeqID cs @ '': length < 0''))
                  else
                    let c = contigs sm ! nat contigIndex;
                        contigFrom = from2 - from_c c;
                        contigTo = contigFrom + len;
                        contigFrom' = (if contigFrom < 0 then 0 else contigFrom);
                        contigTo' = (if contigTo > Len (seq_c c) then Len (seq_c c) else contigTo)
                    in Inr (Feature0\<lparr>ID := SeqID (seq_c c), Start := contigFrom',
                                      End := contigTo'\<rparr>)))"

text \<open>\<open>Invert\<close> returns a reversed copy of the feature pair: A', B' = B, A.\<close>

definition Invert :: "FeaturePair \<Rightarrow> FeaturePair" where
  "Invert fp = \<lparr>A = B fp, B = A fp, Score_p = Score_p fp, Error_p = Error_p fp,
     Strand_p = Strand_p fp\<rparr>"

text \<open>
  The initial value of the package variable \<open>t\<close>, which \<open>Write\<close> fills in and
  hands to the GFF writer.
\<close>

definition t_var :: Feature where
  "t_var = Feature0\<lparr>Source := ''pals'', Feature_f := ''hit''\<rparr>"

text \<open>
  \<open>Write\<close> sets the fields of the package variable (its current value is the
  second argument) and passes it to the GFF writer, which is outside the sources
  at hand: the result is the record the writer receives. The first argument
  stands for the verb \<open>%.2g\<close> of \<open>fmt.Sprintf\<close>.
\<close>

definition Write :: "(float64 \<Rightarrow> string) \<Rightarrow> Feature \<Rightarrow> FeaturePair \<Rightarrow> Feature" where
  "Write fmt_g t0 pair =
     t0\<lparr>Location := ID (B pair),
        Start := Start (B pair),
        End := End (B pair),
        Score := Some (float64_of_int (Score_p pair)),
        Strand := Strand_p pair,
        Frame := - 1,
        Attributes := ''Target '' @ ID (A pair) @ '' '' @ fmt_d (Start (A pair) + 1) @ '' ''
                        @ fmt_d (End (A pair)) @ ''; maxe '' @ fmt_g (Error_p pair)\<rparr>"


section \<open>Filter parameters\<close>

text \<open>Default values and thresholds of package \<open>pals\<close>.\<close>

definition MaxIGap :: int where "MaxIGap = 5"
definition DiffCost :: int where "DiffCost = 3"
definition SameCost :: int where "SameCost = 1"
definition MatchCost :: int where "MatchCost = DiffCost + SameCost"
definition BlockCost :: int where "BlockCost = DiffCost * MaxIGap"
definition RMatchCost :: float64 where "RMatchCost = fadd (float64_of_int DiffCost) (Fin 1)"

definition MaxAvgIndexListLen :: float64 where "MaxAvgIndexListLen = Fin 15"
definition TubeOffsetDelta :: int where "TubeOffsetDelta = 32"
definition MinWordLength :: int where "MinWordLength = 4"
definition MaxKmerLen :: int where "MaxKmerLen = 15"

text \<open>
  \<open>filter.Params\<close> and \<open>dp.Params\<close> are declared outside the sources at hand; the
  records hold the fields that \<open>Optimise\<close> sets.
\<close>

record Params =
  WordSize :: int
  MinMatch :: int
  MaxError :: int
  TubeOffset :: int

definition Params0 :: Params where
  "Params0 = \<lparr>WordSize = 0, MinMatch = 0, MaxError = 0, TubeOffset = 0\<rparr>"

record DPParams =
  MinHitLength :: int
  MinId :: float64

text \<open>
  The logger is an interface value: \<open>None\<close> is the nil logger, and a logger
  that is present is the list of the calls it has received, a \<open>Printf\<close> with its
  format and arguments.
\<close>

datatype logarg = I int | U uintptr | F float64

datatype logmsg = Print string | Printf string "logarg list"

definition logPrint :: "logmsg list option \<Rightarrow> logmsg \<Rightarrow> logmsg list option" where
  "logPrint lg m = (case lg of None \<Rightarrow> None | Some ms \<Rightarrow> Some (ms @ [m]))"

text \<open>
  The fields of \<open>PALS\<close> that \<open>Optimise\<close> and the memory estimate read and write.
  A sequence pointer is the address together with the sequence it points to;
  \<open>p.target != p.query\<close> compares the addresses.
\<close>

record PALS =
  target :: "nat \<times> unit Seq"
  query :: "nat \<times> unit Seq"
  FilterParams :: "Params option"
  DPParams :: "DPParams option"
  log_p :: "logmsg list option"
  tubeOffset :: int
  maxMem :: "uintptr option"

text \<open>
  Modelled from the spec: \<open>util.Pow4\<close> and \<open>util.Log4\<close> are not part of the
  sources at hand; the spec has \<open>4^k\<close> words in the finger array and
  \<open>k_min = log\<^sub>4(N) - log\<^sub>4(MaxAvgIndexListLen)\<close> rounded.
\<close>

definition Pow4 :: "int \<Rightarrow> int" where
  "Pow4 a = 4 ^ nat a"

fun Log4 :: "float64 \<Rightarrow> float64" where
  "Log4 (Fin x) = (if x > 0 then Fin (log 4 x) else if x = 0 then NInf else NaN)"
| "Log4 PInf = PInf"
| "Log4 NInf = NaN"
| "Log4 NaN = NaN"

text \<open>
  Modelled from the spec: \<open>filter.MinWordsPerFilterHit\<close> is not part of the
  sources at hand; the spec has \<open>B = n - k\<cdot>(e+1) + 1\<close>.
\<close>

definition MinWordsPerFilterHit :: "int \<Rightarrow> int \<Rightarrow> int \<Rightarrow> int" where
  "MinWordsPerFilterHit hitLength wordLength maxErrors =
     hitLength - wordLength * (maxErrors + 1) + 1"

text \<open>
  \<open>int(1) << s\<close> for an unsigned shift count \<open>s\<close>: the bit is shifted out of a
  64-bit \<open>int\<close> from 64 on, and is the sign bit at 63.
\<close>

definition shl1 :: "int \<Rightarrow> int" where
  "shl1 s = (if s < 63 then 2 ^ nat s else if s = 63 then - (2 ^ 63) else 0)"

text \<open>An estimate of the average number of hits for any given kmer.\<close>

definition AvgIndexListLength :: "PALS \<Rightarrow> Params \<Rightarrow> float64" where
  "AvgIndexListLength p filterParams =
     fdiv (float64_of_int (Len (snd (target p))))
          (float64_of_int (shl1 ((WordSize filterParams * 2) mod 2 ^ 64)))"

text \<open>Sizes in bytes on a 64-bit platform, as \<open>unsafe.Sizeof\<close> gives them.\<close>

definition sizeof_uint32 :: uintptr where "sizeof_uint32 = 4"
definition sizeof_int :: uintptr where "sizeof_int = 8"
definition sizeof_ptr :: uintptr where "sizeof_ptr = 8"
definition sizeof_tubeState :: uintptr where "sizeof_tubeState = 3 * sizeof_int"

text \<open>An estimate of the amount of memory required for the filter.\<close>

definition filterMemRequired :: "PALS \<Rightarrow> Params \<Rightarrow> error + uintptr" where
  "filterMemRequired p filterParams =
    (let words = Pow4 (WordSize filterParams);
         tubeWidth = TubeOffset filterParams + MaxError filterParams
     in
     if TubeOffset filterParams = 0 then Inl (Panic ''integer divide by zero'')
     else
       let maxActiveTubes =
             quo (Len (snd (target p)) + tubeWidth - 1) (TubeOffset filterParams) + 1;
           tubes = word_of_int maxActiveTubes * sizeof_tubeState;
           finger = sizeof_uint32 * word_of_int words;
           pos = sizeof_int * word_of_int (Len (snd (target p)))
       in Inr (finger + pos + tubes))"

text \<open>An estimate of the total amount of memory required.\<close>

definition MemRequired :: "PALS \<Rightarrow> Params \<Rightarrow> error + uintptr" where
  "MemRequired p filterParams =
    (case filterMemRequired p filterParams of
       Inl e \<Rightarrow> Inl e
     | Inr filter_m \<Rightarrow>
         let sequence = word_of_int (Len (snd (target p))) + sizeof_ptr;
             sequence' = (if fst (target p) \<noteq> fst (query p)
                          then sequence + (word_of_int (Len (snd (query p))) + sizeof_ptr)
                          else sequence)
         in Inr (filter_m + sequence'))"

text \<open>
  The inner loop of \<open>Optimise\<close>, over the word sizes from \<open>MaxKmerLen\<close> down to
  \<open>minWordSize\<close>. Its state is the candidate \<open>filterParams\<close>, \<open>minWords\<close> and the
  log; a \<open>continue\<close> is the recursive call and the \<open>break\<close> returns.
\<close>

function Optimise_wordSizes ::
  "PALS \<Rightarrow> int \<Rightarrow> int \<Rightarrow> int \<Rightarrow> int \<Rightarrow> Params \<Rightarrow> int \<Rightarrow> logmsg list option
     \<Rightarrow> error + (int \<times> Params \<times> logmsg list option)" where
  "Optimise_wordSizes p minWordSize seedLength seedDiffs wordSize filterParams minWords lg =
    (if wordSize \<ge> minWordSize then
       let fp = filterParams\<lparr>WordSize := wordSize, MinMatch := seedLength,
                  MaxError := seedDiffs,
                  TubeOffset := (if tubeOffset p > 0 then tubeOffset p
                                 else seedDiffs + TubeOffsetDelta)\<rparr>
       in
       case MemRequired p fp of
         Inl e \<Rightarrow> Inl e
       | Inr mem \<Rightarrow>
           if maxMem p \<noteq> None \<and> mem > the (maxMem p) then
             Optimise_wordSizes p minWordSize seedLength seedDiffs (wordSize - 1) fp (- 1)
               (logPrint lg (Printf ''Parameters n=%d k=%d e=%d, mem=%d MB > maxmem=%d MB\<newline>''
                  [I (MinMatch fp), I (WordSize fp), I (MaxError fp),
                   U (mem div 1000000), U (the (maxMem p) div 1000000)]))
           else
             let minWords1 = MinWordsPerFilterHit seedLength wordSize seedDiffs in
             if minWords1 \<le> 0 then
               Optimise_wordSizes p minWordSize seedLength seedDiffs (wordSize - 1) fp (- 1)
                 (logPrint lg (Printf ''Parameters n=%d k=%d e=%d, B=%d\<newline>''
                    [I (MinMatch fp), I (WordSize fp), I (MaxError fp), I minWords1]))
             else
               let len = AvgIndexListLength p fp in
               if fgt len MaxAvgIndexListLen then
                 Optimise_wordSizes p minWordSize seedLength seedDiffs (wordSize - 1) fp (- 1)
                   (logPrint lg
                      (Printf ''Parameters n=%d k=%d e=%d, B=%d avgixlen=%.2f > max = %.2f\<newline>''
                         [I (MinMatch fp), I (WordSize fp), I (MaxError fp), I minWords1,
                          F len, F MaxAvgIndexListLen]))
               else Inr (minWords1, fp, lg)
     else Inr (minWords, filterParams, lg))"
  by pat_completeness auto
termination
  by (relation "measure (\<lambda>(p, minWordSize, seedLength, seedDiffs, wordSize, r).
        nat (wordSize - minWordSize + 1))") auto

text \<open>
  The outer loop of \<open>Optimise\<close>: one pass over the word sizes, and when no word
  size passed, a shorter seed or one error less. The result is the error (if
  any), the candidate parameters and the log. The loop has no bound of its own,
  so not returning is \<open>None\<close>.
\<close>

partial_function (option) Optimise_search ::
  "PALS \<Rightarrow> int \<Rightarrow> int \<Rightarrow> int \<Rightarrow> int \<Rightarrow> Params \<Rightarrow> logmsg list option
     \<Rightarrow> (error option \<times> Params \<times> logmsg list option) option" where
  "Optimise_search p minHitLen minWordSize seedLength seedDiffs filterParams lg =
    (let lg1 = (if MaxKmerLen < minWordSize
                then logPrint lg (Printf ''Word size too small: %d < %d\<newline>''
                                    [I MaxKmerLen, I minWordSize])
                else lg)
     in
     case Optimise_wordSizes p minWordSize seedLength seedDiffs MaxKmerLen filterParams (- 1) lg1 of
       Inl e \<Rightarrow> Some (Some e, filterParams, lg1)
     | Inr (minWords, fp, lg2) \<Rightarrow>
         if minWords > 0 then Some (None, fp, lg2)
         else if seedLength \<ge> quo minHitLen 4 then
           Optimise_search p minHitLen minWordSize (quo seedLength 2) seedDiffs fp lg2
         else if seedDiffs > 0 then
           Optimise_search p minHitLen minWordSize seedLength (seedDiffs - 1) fp lg2
         else Some (Some (Error ''failed to find filter parameters''), fp, lg2))"

text \<open>
  Optimise the PALS parameters for given memory, kmer length, hit length and
  sequence identity. The result is the returned error (\<open>None\<close> for nil) and the
  receiver as the call leaves it.
\<close>

definition Optimise :: "PALS \<Rightarrow> int \<Rightarrow> float64 \<Rightarrow> (error option \<times> PALS) option" where
  "Optimise p minHitLen minId =
    (if flt minId (Fin 0) \<or> fgt minId (Fin 1) then Some (Some (Error ''bad minId''), p)
     else if minHitLen \<le> MinWordLength then Some (Some (Error ''bad minHitLength''), p)
     else
       let lg = logPrint (log_p p) (Print ''Optimising filter parameters'');
           minWordSize = int_of_float64
             (fadd (fsub (Log4 (float64_of_int (Len (snd (target p))))) (Log4 MaxAvgIndexListLen))
                   (Fin (1 / 2)));
           seedLength = minHitLen;
           seedDiffs = int_of_float64 (fmul (float64_of_int minHitLen) (fsub (Fin 1) minId))
       in
       case Optimise_search p minHitLen minWordSize seedLength seedDiffs Params0 lg of
         None \<Rightarrow> None
       | Some (Some e, fp, lg') \<Rightarrow> Some (Some e, p\<lparr>log_p := lg'\<rparr>)
       | Some (None, fp, lg') \<Rightarrow>
           Some (None, p\<lparr>FilterParams := Some fp,
                          DPParams := Some \<lparr>MinHitLength = minHitLen, MinId = minId\<rparr>,
                          log_p := lg'\<rparr>))"


section \<open>Feature pairs\<close>

text \<open>
  Claim C10. For every feature pair, \<open>Invert\<close> returns a pair whose \<open>A\<close> and \<open>B\<close>
  are the \<open>B\<close> and \<open>A\<close> of the receiver, with \<open>Score\<close>, \<open>Error\<close> and \<open>Strand\<close>
  unchanged; inverting twice gives a pair equal to the original, field for field.
\<close>

theorem Invert_swaps_involution:
  "A (Invert fp) = B fp \<and> B (Invert fp) = A fp \<and> Score_p (Invert fp) = Score_p fp \<and>
   Error_p (Invert fp) = Error_p fp \<and> Strand_p (Invert fp) = Strand_p fp \<and>
   Invert (Invert fp) = fp"
  by (simp add: Invert_def)

end
